theory Spec2Isabelle
  imports Main "HOL-Library.Word"
begin

section \<open>The relay bot of \<^verbatim>\<open>main.py\<close>\<close>

text \<open>
  \<^verbatim>\<open>main.py\<close> receives a Telegram update that carries web-app data, parses the data as
  JSON, builds a fixed envelope (\<^verbatim>\<open>format_payload\<close>), posts the envelope to a webhook
  (\<^verbatim>\<open>send_to_webhook\<close>) and replies to the chat (\<^verbatim>\<open>web_app_data\<close>).

  Python values that end up in a dict are JSON values. A dict is an association list:
  the order of the keys is the order of the dict literal.
\<close>

subsection \<open>Python values and exceptions\<close>

datatype json =
    JNull
  | JBool bool
  | JInt int
  | JFloat "64 word"
  | JStr string
  | JArr "json list"
  | JObj "(string \<times> json) list"

text \<open>Every exception of the model is an instance of Python's \<^verbatim>\<open>Exception\<close>.\<close>

datatype pyexc =
    AttributeError string
  | KeyError string
  | TypeError string
  | JSONDecodeError string
  | RecursionError string
  | RequestException string
  | TelegramError string

definition quoted :: "string \<Rightarrow> string" where
  "quoted s = CHR 0x27 # s @ [CHR 0x27]"

text \<open>\<^verbatim>\<open>str(e)\<close>, as the f-strings of the log lines render an exception.\<close>

fun str_exc :: "pyexc \<Rightarrow> string" where
  "str_exc (AttributeError s) = s"
| "str_exc (KeyError k) = quoted k"
| "str_exc (TypeError s) = s"
| "str_exc (JSONDecodeError s) = s"
| "str_exc (RecursionError s) = s"
| "str_exc (RequestException s) = s"
| "str_exc (TelegramError s) = s"

text \<open>Reading an attribute of \<^verbatim>\<open>None\<close>.\<close>

definition none_attr :: "string \<Rightarrow> pyexc" where
  "none_attr a = AttributeError (quoted ''NoneType'' @ '' object has no attribute '' @ quoted a)"

definition bind_exc :: "pyexc + 'a \<Rightarrow> ('a \<Rightarrow> pyexc + 'b) \<Rightarrow> pyexc + 'b" where
  "bind_exc r f = (case r of Inl e \<Rightarrow> Inl e | Inr x \<Rightarrow> f x)"

subsection \<open>Rendering integers\<close>

definition digit_char :: "nat \<Rightarrow> char" where
  "digit_char d = ''0123456789'' ! d"

function str_nat :: "nat \<Rightarrow> string" where
  "str_nat n = (if n < 10 then [digit_char n] else str_nat (n div 10) @ [digit_char (n mod 10)])"
  by pat_completeness auto
termination
  by (relation "measure (\<lambda>n. n)") auto

declare str_nat.simps [simp del]

definition str_int :: "int \<Rightarrow> string" where
  "str_int i = (if i < 0 then CHR ''-'' # str_nat (nat (- i)) else str_nat (nat i))"

text \<open>\<^verbatim>\<open>"%0wd" % n\<close> for a number that is not negative.\<close>

definition zero_pad :: "nat \<Rightarrow> nat \<Rightarrow> string" where
  "zero_pad w n = replicate (w - length (str_nat n)) CHR ''0'' @ str_nat n"

subsection \<open>\<^verbatim>\<open>datetime.isoformat()\<close>\<close>

text \<open>
  A \<^verbatim>\<open>datetime\<close> of the standard library; \<open>utcoffset\<close> is the offset of an aware
  datetime in microseconds, \<open>None\<close> for a naive one.
\<close>

record datetime =
  year :: nat
  month :: nat
  day :: nat
  hour :: nat
  minute :: nat
  second :: nat
  microsecond :: nat
  utcoffset :: "int option"

definition format_time :: "nat \<Rightarrow> nat \<Rightarrow> nat \<Rightarrow> nat \<Rightarrow> string" where
  "format_time hh mm ss us =
     zero_pad 2 hh @ '':'' @ zero_pad 2 mm @ '':'' @ zero_pad 2 ss
       @ (if us \<noteq> 0 then ''.'' @ zero_pad 6 us else [])"

definition format_offset :: "int option \<Rightarrow> string" where
  "format_offset off =
     (case off of
        None \<Rightarrow> []
      | Some d \<Rightarrow>
          (let sign = (if d < 0 then ''-'' else ''+'');
               a = nat \<bar>d\<bar>;
               hh = a div 3600000000;
               r = a mod 3600000000;
               mm = r div 60000000;
               ss = r mod 60000000
           in sign @ zero_pad 2 hh @ '':'' @ zero_pad 2 mm
                @ (if ss \<noteq> 0
                   then '':'' @ zero_pad 2 (ss div 1000000)
                          @ (if ss mod 1000000 \<noteq> 0 then ''.'' @ zero_pad 6 (ss mod 1000000) else [])
                   else [])))"

definition isoformat :: "datetime \<Rightarrow> string" where
  "isoformat d =
     zero_pad 4 (year d) @ ''-'' @ zero_pad 2 (month d) @ ''-'' @ zero_pad 2 (day d) @ ''T''
       @ format_time (hour d) (minute d) (second d) (microsecond d)
       @ format_offset (utcoffset d)"

subsection \<open>The objects of the bot library that the code reads\<close>

text \<open>
  Only the attributes that \<^verbatim>\<open>main.py\<close> reads. An attribute that the library types as
  optional is an \<open>option\<close>. \<open>effective_user\<close>, \<open>effective_chat\<close>, \<open>effective_message\<close>
  and \<open>message\<close> of an update are optional as well. The library always sets
  \<^verbatim>\<open>is_bot\<close> and \<^verbatim>\<open>first_name\<close> of a user; the code copies them unread, so the
  model lets them be \<^verbatim>\<open>None\<close> too.
\<close>

record user =
  user_id :: int
  user_is_bot :: "bool option"
  user_first_name :: "string option"
  user_last_name :: "string option"
  user_username :: "string option"
  user_language_code :: "string option"

record chat =
  chat_id :: int
  chat_first_name :: "string option"
  chat_last_name :: "string option"
  chat_username :: "string option"
  chat_type :: string

record web_app_data_obj =
  wad_data :: string
  wad_button_text :: string

record message =
  message_id :: int
  message_chat :: chat
  message_date :: datetime
  message_text :: "string option"
  message_web_app_data :: "web_app_data_obj option"

record update =
  update_id :: int
  effective_user :: "user option"
  effective_chat :: "chat option"
  effective_message :: "message option"
  message :: "message option"

record response =
  status_code :: int
  response_text :: string

subsection \<open>The outside world and the effects of a handler\<close>

datatype level = INFO | ERROR

datatype markup = NoMarkup | ReplyKeyboardRemove

text \<open>
  An effect is a call that leaves the program: a log record, the call of
  \<^verbatim>\<open>requests.post\<close> (URL, headers, JSON body), and the two reply calls on
  \<^verbatim>\<open>update.message\<close> (chat of the message, text, reply markup).
\<close>

datatype effect =
    Log level string
  | HttpPost "string option" "(string \<times> string) list" json
  | ReplyHtml int string markup
  | ReplyText int string markup

text \<open>
  What the libraries answer. \<open>json_loads\<close> is \<^verbatim>\<open>json.loads\<close>, \<open>json_dumps\<close> is
  \<^verbatim>\<open>json.dumps(_, indent=2)\<close>, \<open>py_repr\<close> is Python's \<^verbatim>\<open>repr\<close> of a float, list or
  dict, \<open>requests_post\<close> is the simulated outcome of the HTTP call (a response or a
  transport exception), \<open>reply_html\<close> and \<open>reply_text\<close> say whether sending the message
  raises. \<open>webhook_url\<close> is the module's global read from the environment.
\<close>

record world =
  webhook_url :: "string option"
  json_loads :: "string \<Rightarrow> pyexc + json"
  json_dumps :: "json \<Rightarrow> string"
  py_repr :: "json \<Rightarrow> string"
  requests_post :: "string option \<Rightarrow> (string \<times> string) list \<Rightarrow> json \<Rightarrow> pyexc + response"
  reply_html :: "int \<Rightarrow> string \<Rightarrow> markup \<Rightarrow> pyexc option"
  reply_text :: "int \<Rightarrow> string \<Rightarrow> markup \<Rightarrow> pyexc option"

subsection \<open>\<^verbatim>\<open>send_to_webhook\<close>\<close>

definition headers :: "(string \<times> string) list" where
  "headers = [(''Content-Type'', ''application/json'')]"

text \<open>The body of the \<^verbatim>\<open>try\<close>.\<close>

definition send_to_webhook_try :: "world \<Rightarrow> json \<Rightarrow> effect list \<times> (pyexc + unit)" where
  "send_to_webhook_try w payload =
     (let tr = [Log INFO (''Sending the following data to the webhook: '' @ json_dumps w payload),
                HttpPost (webhook_url w) headers payload]
      in case requests_post w (webhook_url w) headers payload of
           Inl e \<Rightarrow> (tr, Inl e)
         | Inr resp \<Rightarrow>
             if status_code resp = 200
             then (tr @ [Log INFO ''Data successfully sent to the webhook.''], Inr ())
             else (tr @ [Log ERROR (''Failed to send data to webhook. Status code: ''
                            @ str_int (status_code resp) @ '', Response: '' @ response_text resp)],
                   Inr ()))"

text \<open>\<^verbatim>\<open>try: ... except Exception as e: logger.error(...)\<close>; the function returns \<^verbatim>\<open>None\<close>.\<close>

definition send_to_webhook :: "world \<Rightarrow> json \<Rightarrow> effect list \<times> (pyexc + unit)" where
  "send_to_webhook w payload =
     (case send_to_webhook_try w payload of
        (tr, Inr x) \<Rightarrow> (tr, Inr x)
      | (tr, Inl e) \<Rightarrow>
          (tr @ [Log ERROR (''An error occurred while sending data to the webhook: '' @ str_exc e)],
           Inr ()))"

subsection \<open>\<^verbatim>\<open>format_payload\<close>\<close>

definition json_opt :: "string option \<Rightarrow> json" where
  "json_opt s = (case s of None \<Rightarrow> JNull | Some t \<Rightarrow> JStr t)"

definition json_bool_opt :: "bool option \<Rightarrow> json" where
  "json_bool_opt b = (case b of None \<Rightarrow> JNull | Some t \<Rightarrow> JBool t)"

text \<open>
  The dict literal is evaluated in the order of its keys, so the first attribute read
  from \<^verbatim>\<open>None\<close> is \<^verbatim>\<open>message.message_id\<close>, then \<^verbatim>\<open>user_info.id\<close>, then
  \<^verbatim>\<open>chat_info.id\<close>.
\<close>

definition format_payload :: "update \<Rightarrow> json \<Rightarrow> pyexc + json" where
  "format_payload upd web_app_data =
     (case effective_message upd of
        None \<Rightarrow> Inl (none_attr ''message_id'')
      | Some msg \<Rightarrow>
     (case effective_user upd of
        None \<Rightarrow> Inl (none_attr ''id'')
      | Some user_info \<Rightarrow>
     (case effective_chat upd of
        None \<Rightarrow> Inl (none_attr ''id'')
      | Some chat_info \<Rightarrow>
          Inr (JObj
            [(''update_id'', JInt (update_id upd)),
             (''message'', JObj
               [(''message_id'', JInt (message_id msg)),
                (''from'', JObj
                  [(''id'', JInt (user_id user_info)),
                   (''is_bot'', json_bool_opt (user_is_bot user_info)),
                   (''first_name'', json_opt (user_first_name user_info)),
                   (''last_name'', json_opt (user_last_name user_info)),
                   (''username'', json_opt (user_username user_info)),
                   (''language_code'', json_opt (user_language_code user_info))]),
                (''chat'', JObj
                  [(''id'', JInt (chat_id chat_info)),
                   (''first_name'', json_opt (chat_first_name chat_info)),
                   (''last_name'', json_opt (chat_last_name chat_info)),
                   (''username'', json_opt (chat_username chat_info)),
                   (''type'', JStr (chat_type chat_info))]),
                (''date'', JStr (isoformat (message_date msg))),
                (''text'', json_opt (message_text msg)),
                (''attachment'', JObj [(''type'', JStr ''OtherOrNone'')]),
                (''web_app_data'', web_app_data)])]))))"

subsection \<open>\<^verbatim>\<open>web_app_data\<close>\<close>

text \<open>\<^verbatim>\<open>d[k]\<close>: a missing key raises \<^verbatim>\<open>KeyError\<close>, a value that is no dict \<^verbatim>\<open>TypeError\<close>.\<close>

fun getitem :: "json \<Rightarrow> string \<Rightarrow> pyexc + json" where
  "getitem (JObj kvs) k = (case map_of kvs k of None \<Rightarrow> Inl (KeyError k) | Some v \<Rightarrow> Inr v)"
| "getitem _ k = Inl (TypeError ''object is not subscriptable'')"

fun getpath :: "json \<Rightarrow> string list \<Rightarrow> pyexc + json" where
  "getpath v [] = Inr v"
| "getpath v (k # ks) = bind_exc (getitem v k) (\<lambda>x. getpath x ks)"

text \<open>A value inside an f-string.\<close>

fun py_str :: "world \<Rightarrow> json \<Rightarrow> string" where
  "py_str w JNull = ''None''"
| "py_str w (JBool b) = (if b then ''True'' else ''False'')"
| "py_str w (JInt i) = str_int i"
| "py_str w (JStr s) = s"
| "py_str w v = py_repr w v"

definition response_message :: "world \<Rightarrow> json \<Rightarrow> pyexc + string" where
  "response_message w formatted_payload =
     bind_exc (getpath formatted_payload [''update_id'']) (\<lambda>uid.
     bind_exc (getpath formatted_payload [''message'', ''message_id'']) (\<lambda>mid.
     bind_exc (getpath formatted_payload [''message'', ''from'', ''first_name'']) (\<lambda>first.
     bind_exc (getpath formatted_payload [''message'', ''from'', ''last_name'']) (\<lambda>last.
     bind_exc (getpath formatted_payload [''message'', ''from'', ''username'']) (\<lambda>uname.
     bind_exc (getpath formatted_payload [''message'', ''text'']) (\<lambda>txt.
     bind_exc (getpath formatted_payload [''message'', ''attachment'', ''type'']) (\<lambda>att.
     bind_exc (getpath formatted_payload [''message'', ''web_app_data'']) (\<lambda>wad.
       Inr (''Data received and sent to the webhook:\<newline>\<newline>''
            @ ''<b>Update ID:</b> '' @ py_str w uid @ ''\<newline>''
            @ ''<b>Message ID:</b> '' @ py_str w mid @ ''\<newline>''
            @ ''<b>From:</b> '' @ py_str w first @ '' ''
            @ py_str w last @ '' (@'' @ py_str w uname @ '')\<newline>''
            @ ''<b>Text:</b> '' @ py_str w txt @ ''\<newline>''
            @ ''<b>Attachment Type:</b> '' @ py_str w att @ ''\<newline>''
            @ ''<b>WebApp Data:</b> '' @ json_dumps w wad @ ''\<newline>'')))))))))"

definition failure_text :: string where
  "failure_text = ''An error occurred while processing your data. Please try again later.''"

text \<open>The body of the handler's \<^verbatim>\<open>try\<close>.\<close>

definition web_app_data_try :: "world \<Rightarrow> update \<Rightarrow> effect list \<times> (pyexc + unit)" where
  "web_app_data_try w upd =
     (case effective_message upd of
        None \<Rightarrow> ([], Inl (none_attr ''web_app_data''))
      | Some em \<Rightarrow>
     (case message_web_app_data em of
        None \<Rightarrow> ([], Inl (none_attr ''data''))
      | Some wad \<Rightarrow>
     (case json_loads w (wad_data wad) of
        Inl e \<Rightarrow> ([], Inl e)
      | Inr raw_web_app_data \<Rightarrow>
     (let tr1 = [Log INFO (''Received WebApp data: '' @ json_dumps w raw_web_app_data)]
      in case format_payload upd raw_web_app_data of
        Inl e \<Rightarrow> (tr1, Inl e)
      | Inr formatted_payload \<Rightarrow>
     (let tr2 = tr1 @ fst (send_to_webhook w formatted_payload)
      in case snd (send_to_webhook w formatted_payload) of
        Inl e \<Rightarrow> (tr2, Inl e)
      | Inr _ \<Rightarrow>
     (case response_message w formatted_payload of
        Inl e \<Rightarrow> (tr2, Inl e)
      | Inr text \<Rightarrow>
     (case message upd of
        None \<Rightarrow> (tr2, Inl (none_attr ''reply_html''))
      | Some m \<Rightarrow>
          (tr2 @ [ReplyHtml (chat_id (message_chat m)) text ReplyKeyboardRemove],
           case reply_html w (chat_id (message_chat m)) text ReplyKeyboardRemove of
             Some e \<Rightarrow> Inl e
           | None \<Rightarrow> Inr ()))))))))"

text \<open>
  \<^verbatim>\<open>except Exception as e\<close>: log the error and reply with the failure text. The reply
  is itself a call that can raise, and nothing catches it.
\<close>

definition web_app_data :: "world \<Rightarrow> update \<Rightarrow> effect list \<times> (pyexc + unit)" where
  "web_app_data w upd =
     (case web_app_data_try w upd of
        (tr, Inr x) \<Rightarrow> (tr, Inr x)
      | (tr, Inl e) \<Rightarrow>
          (let tr' = tr @ [Log ERROR (''Error handling WebApp data: '' @ str_exc e)]
           in case message upd of
                None \<Rightarrow> (tr', Inl (none_attr ''reply_text''))
              | Some m \<Rightarrow>
                  (tr' @ [ReplyText (chat_id (message_chat m)) failure_text NoMarkup],
                   case reply_text w (chat_id (message_chat m)) failure_text NoMarkup of
                     Some e' \<Rightarrow> Inl e'
                   | None \<Rightarrow> Inr ())))"

subsection \<open>What the claims speak of\<close>

text \<open>The keys of a dict, in order.\<close>

fun keys :: "json \<Rightarrow> string list" where
  "keys (JObj kvs) = map fst kvs"
| "keys _ = []"

fun is_post :: "effect \<Rightarrow> bool" where
  "is_post (HttpPost _ _ _) = True"
| "is_post _ = False"

fun is_reply :: "effect \<Rightarrow> bool" where
  "is_reply (ReplyHtml _ _ _) = True"
| "is_reply (ReplyText _ _ _) = True"
| "is_reply _ = False"





subsection \<open>A concrete event and concrete worlds\<close>

text \<open>
  The scenario of the specification: user Ann, a private chat, message 5 with the text
  hello, sent at 2024-01-01 00:00:00 UTC, and the payload \<^verbatim>\<open>{"choice":"A"}\<close>.
\<close>

definition sample_user :: user where
  "sample_user = \<lparr>user_id = 1, user_is_bot = Some False, user_first_name = Some ''Ann'',
     user_last_name = None, user_username = Some ''ann'', user_language_code = None\<rparr>"

definition sample_chat :: chat where
  "sample_chat = \<lparr>chat_id = 1, chat_first_name = None, chat_last_name = None,
     chat_username = None, chat_type = ''private''\<rparr>"

definition sample_date :: datetime where
  "sample_date = \<lparr>year = 2024, month = 1, day = 1, hour = 0, minute = 0, second = 0,
     microsecond = 0, utcoffset = Some 0\<rparr>"

definition sample_data :: string where
  "sample_data = ''{'' @ [CHR 0x22] @ ''choice'' @ [CHR 0x22] @ '':''
     @ [CHR 0x22] @ ''A'' @ [CHR 0x22] @ ''}''"

text \<open>The payload as \<^verbatim>\<open>json.dumps(_, indent=2)\<close> prints it.\<close>

definition sample_pretty :: string where
  "sample_pretty = ''{\<newline>  '' @ [CHR 0x22] @ ''choice'' @ [CHR 0x22] @ '': ''
     @ [CHR 0x22] @ ''A'' @ [CHR 0x22] @ ''\<newline>}''"

definition sample_raw :: json where
  "sample_raw = JObj [(''choice'', JStr ''A'')]"

definition sample_message :: "string \<Rightarrow> message" where
  "sample_message d = \<lparr>message_id = 5, message_chat = sample_chat, message_date = sample_date,
     message_text = Some ''hello'',
     message_web_app_data = Some \<lparr>wad_data = d, wad_button_text = ''Service client''\<rparr>\<rparr>"

text \<open>The update whose web-app data is the string \<open>d\<close>.\<close>

definition sample_update :: "string \<Rightarrow> update" where
  "sample_update d = \<lparr>update_id = 1000, effective_user = Some sample_user,
     effective_chat = Some sample_chat, effective_message = Some (sample_message d),
     message = Some (sample_message d)\<rparr>"

text \<open>The same update with another chat behind \<open>message\<close> and no web-app data there.\<close>

definition other_update :: update where
  "other_update = (sample_update sample_data)
     \<lparr>message := Some ((sample_message sample_data)
         \<lparr>message_id := 6, message_chat := sample_chat\<lparr>chat_id := 2\<rparr>,
          message_web_app_data := None\<rparr>)\<rparr>"

definition sample_envelope :: json where
  "sample_envelope = JObj
     [(''update_id'', JInt 1000),
      (''message'', JObj
        [(''message_id'', JInt 5),
         (''from'', JObj
           [(''id'', JInt 1), (''is_bot'', JBool False), (''first_name'', JStr ''Ann''),
            (''last_name'', JNull), (''username'', JStr ''ann''), (''language_code'', JNull)]),
         (''chat'', JObj
           [(''id'', JInt 1), (''first_name'', JNull), (''last_name'', JNull),
            (''username'', JNull), (''type'', JStr ''private'')]),
         (''date'', JStr ''2024-01-01T00:00:00+00:00''),
         (''text'', JStr ''hello''),
         (''attachment'', JObj [(''type'', JStr ''OtherOrNone'')]),
         (''web_app_data'', sample_raw)])]"

definition sample_summary :: string where
  "sample_summary =
     ''Data received and sent to the webhook:\<newline>\<newline>''
     @ ''<b>Update ID:</b> 1000\<newline>''
     @ ''<b>Message ID:</b> 5\<newline>''
     @ ''<b>From:</b> Ann None (@ann)\<newline>''
     @ ''<b>Text:</b> hello\<newline>''
     @ ''<b>Attachment Type:</b> OtherOrNone\<newline>''
     @ ''<b>WebApp Data:</b> '' @ sample_pretty @ ''\<newline>''"

text \<open>
  A world that parses only the sample payload, answers the HTTP call with \<open>http\<close>,
  and whose reply calls raise what \<open>html\<close> and \<open>txt\<close> say.
\<close>

definition sample_world :: "pyexc + response \<Rightarrow> pyexc option \<Rightarrow> pyexc option \<Rightarrow> world" where
  "sample_world http html txt =
     \<lparr>webhook_url = Some ''https://example.org/hook'',
      json_loads = (\<lambda>s. if s = sample_data then Inr sample_raw
                         else Inl (JSONDecodeError ''Expecting value: line 1 column 1 (char 0)'')),
      json_dumps = (\<lambda>v. if v = sample_raw then sample_pretty else ''...''),
      py_repr = (\<lambda>v. ''...''),
      requests_post = (\<lambda>url hs body. http),
      reply_html = (\<lambda>c t m. html),
      reply_text = (\<lambda>c t m. txt)\<rparr>"

definition ok_response :: "pyexc + response" where
  "ok_response = Inr \<lparr>status_code = 200, response_text = ''ok''\<rparr>"

definition error_response :: "pyexc + response" where
  "error_response = Inr \<lparr>status_code = 500, response_text = ''Internal Server Error''\<rparr>"

definition network_error :: "pyexc + response" where
  "network_error = Inl (RequestException ''Connection refused'')"


subsection \<open>JSON texts\<close>

text \<open>
  What the claims call valid or well-formed JSON: the grammar of RFC 8259, on bytes. It
  is not what \<^verbatim>\<open>json.loads\<close> accepts: \<^verbatim>\<open>json.loads\<close> also parses the literals
  \<^verbatim>\<open>NaN\<close>, \<^verbatim>\<open>Infinity\<close> and \<^verbatim>\<open>-Infinity\<close>, and it raises \<^verbatim>\<open>RecursionError\<close> on a
  text that is nested deeper than the interpreter's recursion limit.
\<close>

definition rfc8259_ws :: "string \<Rightarrow> bool" where
  "rfc8259_ws s = list_all (\<lambda>c. c \<in> set [CHR 0x20, CHR 0x09, CHR 0x0A, CHR 0x0D]) s"

definition rfc8259_digits :: "string \<Rightarrow> bool" where
  "rfc8259_digits s = (s \<noteq> [] \<and> list_all (\<lambda>c. c \<in> set ''0123456789'') s)"

inductive rfc8259_int :: "string \<Rightarrow> bool" where
  zero: "rfc8259_int ''0''"
| nonzero: "d \<in> set ''123456789'' \<Longrightarrow> list_all (\<lambda>c. c \<in> set ''0123456789'') ds
     \<Longrightarrow> rfc8259_int (d # ds)"

inductive rfc8259_frac :: "string \<Rightarrow> bool" where
  no_frac: "rfc8259_frac []"
| frac: "rfc8259_digits ds \<Longrightarrow> rfc8259_frac (CHR ''.'' # ds)"

inductive rfc8259_exp :: "string \<Rightarrow> bool" where
  no_exp: "rfc8259_exp []"
| exponent: "e \<in> set ''eE'' \<Longrightarrow> sg \<in> set [[], ''-'', ''+''] \<Longrightarrow> rfc8259_digits ds
     \<Longrightarrow> rfc8259_exp (e # sg @ ds)"

inductive rfc8259_number :: "string \<Rightarrow> bool" where
  number: "m \<in> set [[], ''-''] \<Longrightarrow> rfc8259_int i \<Longrightarrow> rfc8259_frac f \<Longrightarrow> rfc8259_exp e
     \<Longrightarrow> rfc8259_number (m @ i @ f @ e)"

text \<open>The characters between the quotation marks of a string.\<close>

inductive rfc8259_chars :: "string \<Rightarrow> bool" where
  no_char: "rfc8259_chars []"
| unescaped: "(0x20 :: nat) \<le> of_char c \<Longrightarrow> c \<noteq> CHR 0x22 \<Longrightarrow> c \<noteq> CHR 0x5C
     \<Longrightarrow> rfc8259_chars cs \<Longrightarrow> rfc8259_chars (c # cs)"
| escape: "c \<in> set [CHR 0x22, CHR 0x5C, CHR ''/'', CHR ''b'', CHR ''f'', CHR ''n'', CHR ''r'', CHR ''t'']
     \<Longrightarrow> rfc8259_chars cs \<Longrightarrow> rfc8259_chars (CHR 0x5C # c # cs)"
| unicode: "list_all (\<lambda>c. c \<in> set ''0123456789abcdefABCDEF'') [h1, h2, h3, h4]
     \<Longrightarrow> rfc8259_chars cs \<Longrightarrow> rfc8259_chars (CHR 0x5C # CHR ''u'' # h1 # h2 # h3 # h4 # cs)"

inductive rfc8259_string :: "string \<Rightarrow> bool" where
  quoted_chars: "rfc8259_chars cs \<Longrightarrow> rfc8259_string (CHR 0x22 # cs @ [CHR 0x22])"

text \<open>
  A value has no white space around it; the elements of an array and the members of an
  object carry the white space that the grammar puts around the structural characters.
\<close>

inductive rfc8259_value :: "string \<Rightarrow> bool"
  and rfc8259_elements :: "string \<Rightarrow> bool"
  and rfc8259_members :: "string \<Rightarrow> bool" where
  lit_false: "rfc8259_value ''false''"
| lit_null: "rfc8259_value ''null''"
| lit_true: "rfc8259_value ''true''"
| num: "rfc8259_number s \<Longrightarrow> rfc8259_value s"
| str: "rfc8259_string s \<Longrightarrow> rfc8259_value s"
| empty_array: "rfc8259_ws w \<Longrightarrow> rfc8259_value (''['' @ w @ '']'')"
| array: "rfc8259_elements es \<Longrightarrow> rfc8259_value (''['' @ es @ '']'')"
| empty_object: "rfc8259_ws w \<Longrightarrow> rfc8259_value (''{'' @ w @ ''}'')"
| object: "rfc8259_members ms \<Longrightarrow> rfc8259_value (''{'' @ ms @ ''}'')"
| element: "rfc8259_ws w1 \<Longrightarrow> rfc8259_value v \<Longrightarrow> rfc8259_ws w2
     \<Longrightarrow> rfc8259_elements (w1 @ v @ w2)"
| elements: "rfc8259_ws w1 \<Longrightarrow> rfc8259_value v \<Longrightarrow> rfc8259_ws w2 \<Longrightarrow> rfc8259_elements es
     \<Longrightarrow> rfc8259_elements (w1 @ v @ w2 @ '','' @ es)"
| member: "rfc8259_ws w1 \<Longrightarrow> rfc8259_string k \<Longrightarrow> rfc8259_ws w2 \<Longrightarrow> rfc8259_ws w3
     \<Longrightarrow> rfc8259_value v \<Longrightarrow> rfc8259_ws w4
     \<Longrightarrow> rfc8259_members (w1 @ k @ w2 @ '':'' @ w3 @ v @ w4)"
| members: "rfc8259_ws w1 \<Longrightarrow> rfc8259_string k \<Longrightarrow> rfc8259_ws w2 \<Longrightarrow> rfc8259_ws w3
     \<Longrightarrow> rfc8259_value v \<Longrightarrow> rfc8259_ws w4 \<Longrightarrow> rfc8259_members ms
     \<Longrightarrow> rfc8259_members (w1 @ k @ w2 @ '':'' @ w3 @ v @ w4 @ '','' @ ms)"

inductive rfc8259_text :: "string \<Rightarrow> bool" where
  json_text: "rfc8259_ws w1 \<Longrightarrow> rfc8259_value v \<Longrightarrow> rfc8259_ws w2 \<Longrightarrow> rfc8259_text (w1 @ v @ w2)"

subsection \<open>Two payloads on which \<^verbatim>\<open>json.loads\<close> and the grammar differ\<close>








section \<open>Properties\<close>

subsection \<open>Evaluating the renderers\<close>

lemmas sample_defs = sample_user_def sample_chat_def sample_date_def sample_data_def
  sample_raw_def sample_message_def sample_update_def other_update_def sample_envelope_def
  sample_world_def ok_response_def error_response_def network_error_def

lemma str_nat_digit [simp]: "n < 10 \<Longrightarrow> str_nat n = [digit_char n]"
  by (simp add: str_nat.simps)

lemma str_nat_more [simp]: "\<not> n < 10 \<Longrightarrow> str_nat n = str_nat (n div 10) @ [digit_char (n mod 10)]"
  by (subst str_nat.simps) simp

lemmas iso_defs = isoformat_def format_time_def format_offset_def zero_pad_def digit_char_def Let_def

lemma replicate_pad:
  "replicate (Suc n) c = c # replicate n c"
  "replicate 2 c = [c, c]" "replicate 3 c = [c, c, c]" "replicate 4 c = [c, c, c, c]"
  "replicate 5 c = [c, c, c, c, c]"
  by (simp_all add: numeral_eq_Suc)

lemma isoformat_naive_example:
  "isoformat (sample_date\<lparr>utcoffset := None\<rparr>) = ''2024-01-01T00:00:00''"
  by (simp add: sample_date_def iso_defs)

lemma isoformat_offset_example:
  "isoformat \<lparr>year = 987, month = 12, day = 31, hour = 23, minute = 59, second = 58,
      microsecond = 12, utcoffset = Some (- 19800000000)\<rparr> = ''0987-12-31T23:59:58.000012-05:30''"
  by (simp add: iso_defs replicate_pad)

subsection \<open>JSON texts and \<^verbatim>\<open>json.loads\<close>\<close>





lemma sample_data_json: "rfc8259_text sample_data"
proof -
  have k: "rfc8259_string (CHR 0x22 # ''choice'' @ [CHR 0x22])"
    by (rule rfc8259_string.quoted_chars) (auto intro!: rfc8259_chars.intros)
  have a: "rfc8259_string (CHR 0x22 # ''A'' @ [CHR 0x22])"
    by (rule rfc8259_string.quoted_chars) (auto intro!: rfc8259_chars.intros)
  have "rfc8259_members ([] @ (CHR 0x22 # ''choice'' @ [CHR 0x22]) @ [] @ '':'' @ []
          @ (CHR 0x22 # ''A'' @ [CHR 0x22]) @ [])"
    by (rule rfc8259_value_rfc8259_elements_rfc8259_members.member [OF _ k _ _
          rfc8259_value_rfc8259_elements_rfc8259_members.str [OF a]])
       (simp_all add: rfc8259_ws_def)
  then have "rfc8259_value (''{'' @ ([] @ (CHR 0x22 # ''choice'' @ [CHR 0x22]) @ [] @ '':'' @ []
          @ (CHR 0x22 # ''A'' @ [CHR 0x22]) @ []) @ ''}'')"
    by (rule rfc8259_value_rfc8259_elements_rfc8259_members.object)
  then have "rfc8259_value sample_data"
    by (simp add: sample_data_def)
  then have "rfc8259_text ([] @ sample_data @ [])"
    by (rule rfc8259_text.json_text [rotated]) (simp_all add: rfc8259_ws_def)
  then show ?thesis by simp
qed



subsection \<open>The envelope\<close>

text \<open>
  Once the update carries a message, a user and a chat, \<open>format_payload\<close> returns this
  dict. Without one of the three the first attribute read from \<^verbatim>\<open>None\<close> raises.
\<close>

lemma format_payload_Some:
  assumes "effective_message upd = Some msg" "effective_user upd = Some usr" "effective_chat upd = Some cht"
  shows "format_payload upd raw = Inr (JObj
            [(''update_id'', JInt (update_id upd)),
             (''message'', JObj
               [(''message_id'', JInt (message_id msg)),
                (''from'', JObj
                  [(''id'', JInt (user_id usr)),
                   (''is_bot'', json_bool_opt (user_is_bot usr)),
                   (''first_name'', json_opt (user_first_name usr)),
                   (''last_name'', json_opt (user_last_name usr)),
                   (''username'', json_opt (user_username usr)),
                   (''language_code'', json_opt (user_language_code usr))]),
                (''chat'', JObj
                  [(''id'', JInt (chat_id cht)),
                   (''first_name'', json_opt (chat_first_name cht)),
                   (''last_name'', json_opt (chat_last_name cht)),
                   (''username'', json_opt (chat_username cht)),
                   (''type'', JStr (chat_type cht))]),
                (''date'', JStr (isoformat (message_date msg))),
                (''text'', json_opt (message_text msg)),
                (''attachment'', JObj [(''type'', JStr ''OtherOrNone'')]),
                (''web_app_data'', raw)])])"
  using assms by (simp add: format_payload_def)

lemma format_payload_raises_iff:
  "(\<exists>e. format_payload upd raw = Inl e) \<longleftrightarrow>
     effective_message upd = None \<or> effective_user upd = None \<or> effective_chat upd = None"
  by (auto simp add: format_payload_def split: option.splits)

lemma format_payload_sample: "format_payload (sample_update d) sample_raw = Inr sample_envelope"
  by (simp add: format_payload_def sample_defs json_opt_def json_bool_opt_def iso_defs)

lemma sample_update_parts:
  "effective_message (sample_update d) = Some (sample_message d)"
  "effective_user (sample_update d) = Some sample_user"
  "effective_chat (sample_update d) = Some sample_chat"
  "message (sample_update d) = Some (sample_message d)"
  "message_web_app_data (sample_message d) = Some \<lparr>wad_data = d, wad_button_text = ''Service client''\<rparr>"
  by (simp_all add: sample_update_def sample_message_def)

lemma sample_loads:
  "json_loads (sample_world http html txt) sample_data = Inr sample_raw"
  "json_loads (sample_world http html txt) ''not-json''
     = Inl (JSONDecodeError ''Expecting value: line 1 column 1 (char 0)'')"
  by (simp_all add: sample_world_def sample_data_def)


text \<open>
  Claim C1. For an inbound event (an update with message, user and chat) and any parsed
  payload, the envelope of \<open>format_payload\<close> has \<^verbatim>\<open>update_id\<close> equal to the update's,
  \<^verbatim>\<open>message.message_id\<close> and \<^verbatim>\<open>message.text\<close> equal to the message's (a missing text is
  \<^verbatim>\<open>None\<close>), \<^verbatim>\<open>message.date\<close> equal to \<open>isoformat\<close> of the message's date, and
  \<^verbatim>\<open>message.attachment.type\<close> equal to the string \<^verbatim>\<open>OtherOrNone\<close>.
\<close>

theorem format_payload_fields:
  assumes "effective_message upd = Some msg" "effective_user upd = Some usr" "effective_chat upd = Some cht"
  shows "\<exists>env. format_payload upd raw = Inr env
           \<and> getpath env [''update_id''] = Inr (JInt (update_id upd))
           \<and> getpath env [''message'', ''message_id''] = Inr (JInt (message_id msg))
           \<and> getpath env [''message'', ''text''] = Inr (json_opt (message_text msg))
           \<and> getpath env [''message'', ''date''] = Inr (JStr (isoformat (message_date msg)))
           \<and> getpath env [''message'', ''attachment'', ''type''] = Inr (JStr ''OtherOrNone'')"
  by (simp add: format_payload_Some [OF assms] bind_exc_def)

theorem format_payload_fields_witness:
  "effective_message (sample_update sample_data) = Some (sample_message sample_data)
   \<and> effective_user (sample_update sample_data) = Some sample_user
   \<and> effective_chat (sample_update sample_data) = Some sample_chat
   \<and> (\<exists>env. format_payload (sample_update sample_data) sample_raw = Inr env
          \<and> getpath env [''update_id''] = Inr (JInt 1000)
          \<and> getpath env [''message'', ''message_id''] = Inr (JInt 5)
          \<and> getpath env [''message'', ''text''] = Inr (JStr ''hello'')
          \<and> getpath env [''message'', ''date''] = Inr (JStr ''2024-01-01T00:00:00+00:00'')
          \<and> getpath env [''message'', ''attachment'', ''type''] = Inr (JStr ''OtherOrNone''))"
  using format_payload_fields [OF sample_update_parts(1-3), where raw = sample_raw and d1 = sample_data]
  by (simp add: sample_update_parts)
     (simp add: sample_update_def sample_message_def sample_date_def json_opt_def iso_defs)

text \<open>
  Claim C6. The envelope of an inbound event has the same keys in the same order whatever
  optional attributes are set: the keys of the envelope, of \<^verbatim>\<open>message\<close>, \<^verbatim>\<open>from\<close>,
  \<^verbatim>\<open>chat\<close> and \<^verbatim>\<open>attachment\<close> are fixed lists, and an optional attribute that is
  \<^verbatim>\<open>None\<close> is present with the value null.
\<close>

theorem envelope_keys_fixed:
  assumes "effective_message upd = Some msg" "effective_user upd = Some usr" "effective_chat upd = Some cht"
  shows "\<exists>env m f c a. format_payload upd raw = Inr env
           \<and> keys env = [''update_id'', ''message'']
           \<and> getitem env ''message'' = Inr m
           \<and> keys m = [''message_id'', ''from'', ''chat'', ''date'', ''text'', ''attachment'', ''web_app_data'']
           \<and> getitem m ''from'' = Inr f
           \<and> keys f = [''id'', ''is_bot'', ''first_name'', ''last_name'', ''username'', ''language_code'']
           \<and> getitem m ''chat'' = Inr c
           \<and> keys c = [''id'', ''first_name'', ''last_name'', ''username'', ''type'']
           \<and> getitem m ''attachment'' = Inr a
           \<and> keys a = [''type'']
           \<and> getitem f ''is_bot'' = Inr (case user_is_bot usr of None \<Rightarrow> JNull | Some b \<Rightarrow> JBool b)
           \<and> getitem f ''first_name'' = Inr (case user_first_name usr of None \<Rightarrow> JNull | Some s \<Rightarrow> JStr s)
           \<and> getitem f ''last_name'' = Inr (case user_last_name usr of None \<Rightarrow> JNull | Some s \<Rightarrow> JStr s)
           \<and> getitem f ''username'' = Inr (case user_username usr of None \<Rightarrow> JNull | Some s \<Rightarrow> JStr s)
           \<and> getitem f ''language_code'' = Inr (case user_language_code usr of None \<Rightarrow> JNull | Some s \<Rightarrow> JStr s)
           \<and> getitem c ''first_name'' = Inr (case chat_first_name cht of None \<Rightarrow> JNull | Some s \<Rightarrow> JStr s)
           \<and> getitem c ''last_name'' = Inr (case chat_last_name cht of None \<Rightarrow> JNull | Some s \<Rightarrow> JStr s)
           \<and> getitem c ''username'' = Inr (case chat_username cht of None \<Rightarrow> JNull | Some s \<Rightarrow> JStr s)
           \<and> getitem m ''text'' = Inr (case message_text msg of None \<Rightarrow> JNull | Some s \<Rightarrow> JStr s)"
  by (simp add: format_payload_Some [OF assms] json_opt_def json_bool_opt_def)

theorem envelope_keys_fixed_witness:
  "effective_message (sample_update sample_data) = Some (sample_message sample_data)
   \<and> effective_user (sample_update sample_data) = Some sample_user
   \<and> effective_chat (sample_update sample_data) = Some sample_chat
   \<and> user_last_name sample_user = None \<and> user_language_code sample_user = None
   \<and> chat_first_name sample_chat = None \<and> chat_last_name sample_chat = None
   \<and> chat_username sample_chat = None
   \<and> (\<exists>env m f c a. format_payload (sample_update sample_data) sample_raw = Inr env
          \<and> keys env = [''update_id'', ''message'']
          \<and> getitem env ''message'' = Inr m
          \<and> keys m = [''message_id'', ''from'', ''chat'', ''date'', ''text'', ''attachment'', ''web_app_data'']
          \<and> getitem m ''from'' = Inr f
          \<and> keys f = [''id'', ''is_bot'', ''first_name'', ''last_name'', ''username'', ''language_code'']
          \<and> getitem m ''chat'' = Inr c
          \<and> keys c = [''id'', ''first_name'', ''last_name'', ''username'', ''type'']
          \<and> getitem m ''attachment'' = Inr a
          \<and> keys a = [''type'']
          \<and> getitem f ''last_name'' = Inr JNull
          \<and> getitem f ''language_code'' = Inr JNull
          \<and> getitem c ''first_name'' = Inr JNull
          \<and> getitem c ''last_name'' = Inr JNull
          \<and> getitem c ''username'' = Inr JNull)"
proof -
  let ?u = "sample_update sample_data"
  have h1: "effective_message ?u = Some (sample_message sample_data)"
    and h2: "effective_user ?u = Some sample_user"
    and h3: "effective_chat ?u = Some sample_chat"
    by (simp_all add: sample_update_parts)
  show ?thesis
    using h1 h2 h3 envelope_keys_fixed [OF h1 h2 h3, where raw = sample_raw]
    by (simp add: format_payload_sample)
       (simp add: sample_envelope_def sample_user_def sample_chat_def)
qed

text \<open>
  Claim C7. \<open>format_payload\<close> is a function of the attributes it reads: two updates that
  agree on \<^verbatim>\<open>update_id\<close>, the user, the chat, and the id, date and text of the message give
  the same result for the same payload, hence the same serialisation under any
  serialiser. The date string is \<open>isoformat\<close> of the date and of nothing else.
\<close>

theorem format_payload_deterministic:
  assumes "update_id upd = update_id upd'"
    and "effective_user upd = effective_user upd'"
    and "effective_chat upd = effective_chat upd'"
    and "map_option (\<lambda>m. (message_id m, message_date m, message_text m)) (effective_message upd)
         = map_option (\<lambda>m. (message_id m, message_date m, message_text m)) (effective_message upd')"
  shows "format_payload upd raw = format_payload upd' raw
         \<and> map_sum str_exc (json_dumps w) (format_payload upd raw)
           = map_sum str_exc (json_dumps w) (format_payload upd' raw)"
  using assms
  by (cases "effective_message upd"; cases "effective_message upd'")
     (auto simp add: format_payload_def split: option.splits)

theorem format_payload_deterministic_witness:
  "update_id (sample_update sample_data) = update_id other_update
   \<and> effective_user (sample_update sample_data) = effective_user other_update
   \<and> effective_chat (sample_update sample_data) = effective_chat other_update
   \<and> map_option (\<lambda>m. (message_id m, message_date m, message_text m))
         (effective_message (sample_update sample_data))
       = map_option (\<lambda>m. (message_id m, message_date m, message_text m))
           (effective_message other_update)
   \<and> sample_update sample_data \<noteq> other_update
   \<and> format_payload (sample_update sample_data) sample_raw = format_payload other_update sample_raw
   \<and> map_sum str_exc (json_dumps (sample_world ok_response None None))
         (format_payload (sample_update sample_data) sample_raw)
       = map_sum str_exc (json_dumps (sample_world ok_response None None))
           (format_payload other_update sample_raw)"
proof -
  let ?u = "sample_update sample_data"
  have h1: "update_id ?u = update_id other_update"
    and h2: "effective_user ?u = effective_user other_update"
    and h3: "effective_chat ?u = effective_chat other_update"
    and h4: "map_option (\<lambda>m. (message_id m, message_date m, message_text m)) (effective_message ?u)
             = map_option (\<lambda>m. (message_id m, message_date m, message_text m))
                 (effective_message other_update)"
    by (simp_all add: other_update_def sample_update_def sample_message_def)
  have d: "?u \<noteq> other_update"
    by (simp add: other_update_def sample_update_def sample_message_def)
  from format_payload_deterministic [OF h1 h2 h3 h4]
  have "format_payload ?u sample_raw = format_payload other_update sample_raw
        \<and> map_sum str_exc (json_dumps (sample_world ok_response None None))
              (format_payload ?u sample_raw)
            = map_sum str_exc (json_dumps (sample_world ok_response None None))
                (format_payload other_update sample_raw)" .
  with h1 h2 h3 h4 d show ?thesis
    by blast
qed

text \<open>
  Claim C8. \<open>format_payload\<close> returns an envelope for every inbound event (an update with
  message, user and chat), whatever optional attributes are missing and whatever the
  payload is; it never parses anything.
\<close>

theorem format_payload_total:
  assumes "effective_message upd = Some msg" "effective_user upd = Some usr" "effective_chat upd = Some cht"
  shows "\<exists>env. format_payload upd raw = Inr env"
  by (simp add: format_payload_Some [OF assms])

theorem format_payload_total_witness:
  "effective_message (sample_update sample_data) = Some (sample_message sample_data)
   \<and> effective_user (sample_update sample_data) = Some sample_user
   \<and> effective_chat (sample_update sample_data) = Some sample_chat
   \<and> (\<exists>env. format_payload (sample_update sample_data) (JStr ''no dict'') = Inr env)"
proof -
  let ?u = "sample_update sample_data"
  have h1: "effective_message ?u = Some (sample_message sample_data)"
    and h2: "effective_user ?u = Some sample_user"
    and h3: "effective_chat ?u = Some sample_chat"
    by (simp_all add: sample_update_parts)
  show ?thesis
    using h1 h2 h3 format_payload_total [OF h1 h2 h3, where raw = "JStr ''no dict''"]
    by simp
qed

subsection \<open>The forwarder\<close>

lemma send_to_webhook_result: "snd (send_to_webhook w p) = Inr ()"
  by (simp add: send_to_webhook_def send_to_webhook_try_def Let_def split: sum.splits)

lemma send_to_webhook_trace:
  "fst (send_to_webhook w p) =
     [Log INFO (''Sending the following data to the webhook: '' @ json_dumps w p),
      HttpPost (webhook_url w) headers p,
      (case requests_post w (webhook_url w) headers p of
         Inl e \<Rightarrow> Log ERROR (''An error occurred while sending data to the webhook: '' @ str_exc e)
       | Inr resp \<Rightarrow>
           if status_code resp = 200 then Log INFO ''Data successfully sent to the webhook.''
           else Log ERROR (''Failed to send data to webhook. Status code: ''
                  @ str_int (status_code resp) @ '', Response: '' @ response_text resp))]"
  by (simp add: send_to_webhook_def send_to_webhook_try_def Let_def split: sum.splits)

lemma send_to_webhook_posts: "filter is_post (fst (send_to_webhook w p)) = [HttpPost (webhook_url w) headers p]"
  by (simp add: send_to_webhook_trace split: sum.splits)

lemma send_to_webhook_replies: "filter is_reply (fst (send_to_webhook w p)) = []"
  by (simp add: send_to_webhook_trace split: sum.splits)

lemma send_to_webhook_examples:
  "send_to_webhook (sample_world ok_response None None) sample_envelope =
     ([Log INFO (''Sending the following data to the webhook: '' @ ''...''),
       HttpPost (Some ''https://example.org/hook'') headers sample_envelope,
       Log INFO ''Data successfully sent to the webhook.''], Inr ())"
  "send_to_webhook (sample_world error_response None None) sample_envelope =
     ([Log INFO (''Sending the following data to the webhook: '' @ ''...''),
       HttpPost (Some ''https://example.org/hook'') headers sample_envelope,
       Log ERROR ''Failed to send data to webhook. Status code: 500, Response: Internal Server Error''],
      Inr ())"
  "send_to_webhook (sample_world network_error None None) sample_envelope =
     ([Log INFO (''Sending the following data to the webhook: '' @ ''...''),
       HttpPost (Some ''https://example.org/hook'') headers sample_envelope,
       Log ERROR ''An error occurred while sending data to the webhook: Connection refused''],
      Inr ())"
  by (simp_all add: send_to_webhook_def send_to_webhook_try_def sample_world_def ok_response_def
        error_response_def network_error_def sample_envelope_def sample_raw_def str_int_def
        digit_char_def)


subsection \<open>The handler\<close>

lemma py_str_post [simp]: "py_str (w\<lparr>requests_post := post\<rparr>) v = py_str w v"
  by (cases v) simp_all


lemma response_message_post [simp]:
  "response_message (w\<lparr>requests_post := post\<rparr>) env = response_message w env"
  by (simp add: response_message_def)


lemma response_message_sample:
  "response_message (sample_world http html txt) sample_envelope = Inr sample_summary"
  by (simp add: response_message_def bind_exc_def sample_envelope_def sample_summary_def
        sample_world_def str_int_def digit_char_def)


lemma web_app_data_try_invalid:
  assumes "effective_message upd = Some em" "message_web_app_data em = Some wad"
    and "json_loads w (wad_data wad) = Inl e"
  shows "web_app_data_try w upd = ([], Inl e)"
  using assms by (simp add: web_app_data_try_def)

lemma web_app_data_try_valid:
  assumes "effective_message upd = Some em" "message_web_app_data em = Some wad"
    and "json_loads w (wad_data wad) = Inr raw"
    and "format_payload upd raw = Inr env"
    and "response_message w env = Inr text"
    and "message upd = Some m"
  shows "web_app_data_try w upd =
     ([Log INFO (''Received WebApp data: '' @ json_dumps w raw)] @ fst (send_to_webhook w env)
        @ [ReplyHtml (chat_id (message_chat m)) text ReplyKeyboardRemove],
      case reply_html w (chat_id (message_chat m)) text ReplyKeyboardRemove of
        Some e \<Rightarrow> Inl e | None \<Rightarrow> Inr ())"
  using assms by (simp add: web_app_data_try_def Let_def send_to_webhook_result)

lemma web_app_data_caught:
  assumes "web_app_data_try w upd = (tr, Inl e)" "message upd = Some m"
  shows "web_app_data w upd =
     (tr @ [Log ERROR (''Error handling WebApp data: '' @ str_exc e),
            ReplyText (chat_id (message_chat m)) failure_text NoMarkup],
      case reply_text w (chat_id (message_chat m)) failure_text NoMarkup of
        Some e' \<Rightarrow> Inl e' | None \<Rightarrow> Inr ())"
  using assms by (simp add: web_app_data_def Let_def)


lemma web_app_data_try_post:
  "snd (web_app_data_try (w\<lparr>requests_post := post\<rparr>) upd) = snd (web_app_data_try w upd)
   \<and> filter is_reply (fst (web_app_data_try (w\<lparr>requests_post := post\<rparr>) upd))
     = filter is_reply (fst (web_app_data_try w upd))"
  by (simp add: web_app_data_try_def Let_def send_to_webhook_result send_to_webhook_replies
        split: option.splits sum.splits)

lemma web_app_data_alt:
  "web_app_data w upd =
     (case snd (web_app_data_try w upd) of
        Inr x \<Rightarrow> (fst (web_app_data_try w upd), Inr x)
      | Inl e \<Rightarrow>
          (case message upd of
             None \<Rightarrow> (fst (web_app_data_try w upd)
                        @ [Log ERROR (''Error handling WebApp data: '' @ str_exc e)],
                      Inl (none_attr ''reply_text''))
           | Some m \<Rightarrow>
               (fst (web_app_data_try w upd)
                  @ [Log ERROR (''Error handling WebApp data: '' @ str_exc e),
                     ReplyText (chat_id (message_chat m)) failure_text NoMarkup],
                case reply_text w (chat_id (message_chat m)) failure_text NoMarkup of
                  Some e' \<Rightarrow> Inl e' | None \<Rightarrow> Inr ())))"
  by (cases "web_app_data_try w upd")
     (simp add: web_app_data_def Let_def split: sum.splits option.splits)

lemma reply_html_failure_trace:
  assumes "effective_message upd = Some em" "message_web_app_data em = Some wad"
    and "json_loads w (wad_data wad) = Inr raw"
    and "format_payload upd raw = Inr env"
    and "response_message w env = Inr text"
    and "message upd = Some m"
    and "reply_html w (chat_id (message_chat m)) text ReplyKeyboardRemove = Some e"
  shows "web_app_data_try w upd =
           ([Log INFO (''Received WebApp data: '' @ json_dumps w raw)] @ fst (send_to_webhook w env)
              @ [ReplyHtml (chat_id (message_chat m)) text ReplyKeyboardRemove], Inl e)"
  using web_app_data_try_valid [OF assms(1-6)] assms(7) by simp

lemma sample_try:
  "web_app_data_try (sample_world http html txt) (sample_update sample_data) =
     ([Log INFO (''Received WebApp data: '' @ sample_pretty)]
        @ fst (send_to_webhook (sample_world http html txt) sample_envelope)
        @ [ReplyHtml 1 sample_summary ReplyKeyboardRemove],
      case html of Some e \<Rightarrow> Inl e | None \<Rightarrow> Inr ())"
proof -
  let ?w = "sample_world http html txt"
  let ?u = "sample_update sample_data"
  have a: "effective_message ?u = Some (sample_message sample_data)"
    and b: "message_web_app_data (sample_message sample_data)
              = Some \<lparr>wad_data = sample_data, wad_button_text = ''Service client''\<rparr>"
    and c: "json_loads ?w (wad_data \<lparr>wad_data = sample_data, wad_button_text = ''Service client''\<rparr>)
              = Inr sample_raw"
    and d: "message ?u = Some (sample_message sample_data)"
    by (simp_all add: sample_update_def sample_message_def sample_world_def)
  show ?thesis
    using web_app_data_try_valid [OF a b c format_payload_sample response_message_sample d]
    by (simp add: sample_message_def sample_chat_def sample_world_def)
qed

text \<open>
  Claim C9. \<open>send_to_webhook\<close> returns \<^verbatim>\<open>None\<close> whatever the HTTP outcome is, so the
  handler cannot see the outcome: with any other answer of \<^verbatim>\<open>requests.post\<close> the handler
  ends the same way and issues the same replies.
\<close>

theorem send_to_webhook_returns_None:
  "snd (send_to_webhook w p) = Inr ()
   \<and> snd (web_app_data (w\<lparr>requests_post := post\<rparr>) upd) = snd (web_app_data w upd)
   \<and> filter is_reply (fst (web_app_data (w\<lparr>requests_post := post\<rparr>) upd))
     = filter is_reply (fst (web_app_data w upd))"
proof -
  note p = web_app_data_try_post [where w = w and post = post and upd = upd]
  have "snd (web_app_data (w\<lparr>requests_post := post\<rparr>) upd) = snd (web_app_data w upd)"
    using p by (simp add: web_app_data_alt split: sum.splits option.splits)
  moreover have "filter is_reply (fst (web_app_data (w\<lparr>requests_post := post\<rparr>) upd))
     = filter is_reply (fst (web_app_data w upd))"
    using p by (simp add: web_app_data_alt split: sum.splits option.splits)
  ultimately show ?thesis
    by (simp add: send_to_webhook_result)
qed







text \<open>
  Claim C5, as the code has it. An exception raised in the \<^verbatim>\<open>try\<close> block is caught and
  logged, and the handler calls \<^verbatim>\<open>reply_text\<close> with the failure text; the handler then
  ends as that call ends: normally when the reply is sent, with the reply's exception
  when the reply raises.
\<close>

theorem caught_exception_is_answered:
  assumes "web_app_data_try w upd = (tr, Inl e)" "message upd = Some m"
  shows "fst (web_app_data w upd) =
           tr @ [Log ERROR (''Error handling WebApp data: '' @ str_exc e),
                 ReplyText (chat_id (message_chat m)) failure_text NoMarkup]
         \<and> snd (web_app_data w upd) =
             (case reply_text w (chat_id (message_chat m)) failure_text NoMarkup of
                Some e' \<Rightarrow> Inl e' | None \<Rightarrow> Inr ())"
  by (simp add: web_app_data_caught [OF assms])

theorem caught_exception_is_answered_witness:
  "web_app_data_try (sample_world ok_response None None) (sample_update ''not-json'')
     = ([], Inl (JSONDecodeError ''Expecting value: line 1 column 1 (char 0)''))
   \<and> message (sample_update ''not-json'') = Some (sample_message ''not-json'')
   \<and> fst (web_app_data (sample_world ok_response None None) (sample_update ''not-json'')) =
         [Log ERROR ''Error handling WebApp data: Expecting value: line 1 column 1 (char 0)'',
          ReplyText 1 failure_text NoMarkup]
   \<and> snd (web_app_data (sample_world ok_response None None) (sample_update ''not-json'')) = Inr ()"
proof -
  let ?w = "sample_world ok_response None None"
  let ?u = "sample_update ''not-json''"
  have h1: "web_app_data_try ?w ?u
              = ([], Inl (JSONDecodeError ''Expecting value: line 1 column 1 (char 0)''))"
    by (rule web_app_data_try_invalid [OF sample_update_parts(1) sample_update_parts(5)])
       (simp add: sample_loads)
  have h2: "message ?u = Some (sample_message ''not-json'')"
    by (simp add: sample_update_parts)
  have r: "reply_text ?w c t m = None" for c t m
    by (simp add: sample_world_def)
  show ?thesis
    using h1 h2 caught_exception_is_answered [OF h1 h2]
    by (simp add: r sample_message_def sample_chat_def)
qed

text \<open>
  Claim C5 as stated fails: when Telegram times out on both replies, the exception of the
  failure reply leaves the handler.
\<close>

theorem failure_reply_escapes:
  "snd (web_app_data (sample_world ok_response (Some (TelegramError ''Timed out''))
          (Some (TelegramError ''Timed out''))) (sample_update sample_data))
     = Inl (TelegramError ''Timed out'')"
  by (simp add: web_app_data_def sample_try)
     (simp add: sample_update_def sample_world_def)

text \<open>
  Claim C10. When the \<^verbatim>\<open>try\<close> block raises after it has called \<^verbatim>\<open>requests.post\<close>
  (as it does when \<^verbatim>\<open>reply_html\<close> raises, lemma \<open>reply_html_failure_trace\<close>), the
  handler only adds the error log and the \<^verbatim>\<open>reply_text\<close> call with the failure text: the
  HTTP call stays in the trace, no further call is made, and the failure text is a
  constant that says nothing of the call.
\<close>

theorem failure_after_post_keeps_post:
  assumes "web_app_data_try w upd = (tr, Inl e)"
    and "HttpPost url hs body \<in> set tr"
    and "message upd = Some m"
  shows "fst (web_app_data w upd) =
           tr @ [Log ERROR (''Error handling WebApp data: '' @ str_exc e),
                 ReplyText (chat_id (message_chat m)) failure_text NoMarkup]
         \<and> HttpPost url hs body \<in> set (fst (web_app_data w upd))
         \<and> filter is_post (fst (web_app_data w upd)) = filter is_post tr"
  using assms(2) by (simp add: web_app_data_caught [OF assms(1,3)])

theorem failure_after_post_keeps_post_witness:
  "web_app_data_try (sample_world ok_response (Some (TelegramError ''Bad Request'')) None)
       (sample_update sample_data)
     = ([Log INFO (''Received WebApp data: '' @ sample_pretty),
         Log INFO (''Sending the following data to the webhook: '' @ ''...''),
         HttpPost (Some ''https://example.org/hook'') headers sample_envelope,
         Log INFO ''Data successfully sent to the webhook.'',
         ReplyHtml 1 sample_summary ReplyKeyboardRemove],
        Inl (TelegramError ''Bad Request''))
   \<and> message (sample_update sample_data) = Some (sample_message sample_data)
   \<and> fst (web_app_data (sample_world ok_response (Some (TelegramError ''Bad Request'')) None)
             (sample_update sample_data)) =
         [Log INFO (''Received WebApp data: '' @ sample_pretty),
          Log INFO (''Sending the following data to the webhook: '' @ ''...''),
          HttpPost (Some ''https://example.org/hook'') headers sample_envelope,
          Log INFO ''Data successfully sent to the webhook.'',
          ReplyHtml 1 sample_summary ReplyKeyboardRemove,
          Log ERROR ''Error handling WebApp data: Bad Request'',
          ReplyText 1 failure_text NoMarkup]
   \<and> filter is_post (fst (web_app_data (sample_world ok_response (Some (TelegramError ''Bad Request'')) None)
                            (sample_update sample_data)))
       = [HttpPost (Some ''https://example.org/hook'') headers sample_envelope]"
proof -
  let ?w = "sample_world ok_response (Some (TelegramError ''Bad Request'')) None"
  let ?u = "sample_update sample_data"
  let ?tr = "[Log INFO (''Received WebApp data: '' @ sample_pretty),
         Log INFO (''Sending the following data to the webhook: '' @ ''...''),
         HttpPost (Some ''https://example.org/hook'') headers sample_envelope,
         Log INFO ''Data successfully sent to the webhook.'',
         ReplyHtml 1 sample_summary ReplyKeyboardRemove]"
  have dumps: "json_dumps ?w sample_envelope = ''...''"
    by (simp add: sample_world_def sample_envelope_def sample_raw_def)
  have url: "webhook_url ?w = Some ''https://example.org/hook''"
    by (simp add: sample_world_def)
  have post: "requests_post ?w u hs b = Inr \<lparr>status_code = 200, response_text = ''ok''\<rparr>"
    for u hs b
    by (simp add: sample_world_def ok_response_def)
  have h1: "web_app_data_try ?w ?u = (?tr, Inl (TelegramError ''Bad Request''))"
    by (simp add: sample_try send_to_webhook_trace dumps url post)
  have h2: "HttpPost (Some ''https://example.org/hook'') headers sample_envelope \<in> set ?tr"
    by simp
  have h3: "message ?u = Some (sample_message sample_data)"
    by (simp add: sample_update_parts)
  have c: "chat_id (message_chat (sample_message sample_data)) = 1"
    by (simp add: sample_message_def sample_chat_def)
  show ?thesis
    using h1 h3 failure_after_post_keeps_post [OF h1 h2 h3]
    by (simp add: c)
qed

end
